theory Spec2Isabelle
  imports Complex_Main
begin

section \<open>Numbers, errors and sequencing\<close>

text \<open>
  Python floats are modelled by \<^typ>\<open>real\<close>: the development covers the control flow and
  the exact-arithmetic content of the module; NaN, infinities and rounding are not
  represented. The functions of scipy that the module calls (\<open>norm.ppf\<close>, \<open>norm.cdf\<close>,
  \<open>foldnorm.ppf\<close>, \<open>minimize\<close>, \<open>minimize_scalar\<close>) are parameters of the
  definitions that use them.

  Every exception of the module is a Python \<open>ValueError\<close>; the constructors below keep
  the raise sites apart. \<open>InvalidArgument name\<close> is a \<open>ValueError\<close> raised by one of
  the module's own precondition checks, where \<open>name\<close> is the parameter named in the
  message; \<open>DegreesOfFreedomError df N p n T\<close> is the \<open>ValueError\<close> whose message is
  "Degrees of freedom must be positive, got df. N=.., p=.., n=.., T=.."; the remaining
  constructors are exceptions raised inside numpy.
\<close>

datatype error =
    InvalidArgument string
  | DegreesOfFreedomError int int int int int
  | NumpyValueError
  | NumpyIndexError
  | NotANumber

definition and_then :: "error + 'a \<Rightarrow> ('a \<Rightarrow> error + 'b) \<Rightarrow> error + 'b" where
  "and_then m f = (case m of Inl e \<Rightarrow> Inl e | Inr v \<Rightarrow> f v)"

definition FOLDNORM_SD_MIN :: real where
  "FOLDNORM_SD_MIN = 1 / 10 ^ 15"

definition FOLDNORM_C_MAX :: real where
  "FOLDNORM_C_MAX = 10 ^ 10"

section \<open>Parameter validation\<close>

definition validate_probability :: "real \<Rightarrow> string \<Rightarrow> error + unit" where
  "validate_probability p param_name =
     (if \<not> (0 < p \<and> p < 1) then Inl (InvalidArgument param_name) else Inr ())"

definition validate_positive :: "real \<Rightarrow> string \<Rightarrow> error + unit" where
  "validate_positive v param_name =
     (if v \<le> 0 then Inl (InvalidArgument param_name) else Inr ())"

definition validate_non_negative :: "real \<Rightarrow> string \<Rightarrow> error + unit" where
  "validate_non_negative v param_name =
     (if v < 0 then Inl (InvalidArgument param_name) else Inr ())"

section \<open>Folded normal distribution\<close>

text \<open>
  \<open>norm_ppf\<close> is \<open>scipy.stats.norm.ppf\<close>; \<open>foldnorm_ppf p c scale\<close> is
  \<open>scipy.stats.foldnorm.ppf(p, c, loc=0, scale=scale)\<close>.
\<close>

definition qfoldnorm ::
  "(real \<Rightarrow> real) \<Rightarrow> (real \<Rightarrow> real \<Rightarrow> real \<Rightarrow> real) \<Rightarrow> real \<Rightarrow> real \<Rightarrow> real \<Rightarrow> error + real" where
  "qfoldnorm norm_ppf foldnorm_ppf p mean sd =
     and_then (validate_probability p ''p'') (\<lambda>_.
     and_then (validate_positive sd ''sd'') (\<lambda>_.
       if sd < FOLDNORM_SD_MIN then Inr \<bar>mean\<bar>
       else
         let c = \<bar>mean\<bar> / sd in
         if c > FOLDNORM_C_MAX then
           (let result = \<bar>mean\<bar> + norm_ppf p * sd in Inr (max 0 result))
         else
           (let result = foldnorm_ppf p c sd in Inr result)))"

text \<open>\<open>np.clip(a, lo, hi)\<close> is \<open>minimum(hi, maximum(a, lo))\<close>.\<close>

definition np_clip :: "real \<Rightarrow> real \<Rightarrow> real \<Rightarrow> real" where
  "np_clip a lo hi = min hi (max a lo)"

definition pfoldnorm :: "(real \<Rightarrow> real) \<Rightarrow> real \<Rightarrow> real \<Rightarrow> real \<Rightarrow> error + real" where
  "pfoldnorm norm_cdf x mean sd =
     and_then (validate_non_negative x ''x'') (\<lambda>_.
     and_then (validate_positive sd ''sd'') (\<lambda>_.
       if sd < FOLDNORM_SD_MIN then Inr (if x \<ge> \<bar>mean\<bar> then 1 else 0)
       else
         let mu_abs = \<bar>mean\<bar>;
             z1 = (x - mu_abs) / sd;
             z2 = (x + mu_abs) / sd;
             result = norm_cdf z1 + norm_cdf z2 - 1
         in Inr (np_clip result 0 1)))"

section \<open>numpy arrays\<close>

text \<open>
  A one-dimensional float array is a \<^typ>\<open>real list\<close>. A two-dimensional array is the
  list of its rows; \<open>np.asarray(X, dtype=np.float64)\<close> raises \<open>ValueError\<close> on rows of
  different lengths. The empty list of rows is the array of shape \<open>(0,)\<close>, as numpy
  reads \<open>[]\<close>.
\<close>

definition np_asarray_2d :: "real list list \<Rightarrow> error + real list list" where
  "np_asarray_2d X =
     (case X of
        [] \<Rightarrow> Inr X
      | r # rs \<Rightarrow>
          if list_all (\<lambda>r'. length r' = length r) rs then Inr X else Inl NumpyValueError)"

text \<open>\<open>X.shape[1]\<close>: an \<open>IndexError\<close> on the one-dimensional empty array.\<close>

definition shape1 :: "real list list \<Rightarrow> error + nat" where
  "shape1 X = (case X of [] \<Rightarrow> Inl NumpyIndexError | r # _ \<Rightarrow> Inr (length r))"

text \<open>
  \<open>X @ b\<close> for a two-dimensional \<open>X\<close> and a one-dimensional \<open>b\<close>: the column count
  must be the length of \<open>b\<close>. For the empty one-dimensional \<open>X\<close> the product is the
  inner product of two empty vectors, the scalar 0, written as the one-element array
  that broadcasts in the same way.
\<close>

definition np_matmul :: "real list list \<Rightarrow> real list \<Rightarrow> error + real list" where
  "np_matmul X b =
     (case X of
        [] \<Rightarrow> if b = [] then Inr [0] else Inl NumpyValueError
      | r # _ \<Rightarrow>
          if length r = length b
          then Inr (map (\<lambda>row. sum_list (map2 (*) row b)) X)
          else Inl NumpyValueError)"

text \<open>\<open>ys - xs\<close> with numpy broadcasting of a one-element operand.\<close>

definition np_sub :: "real list \<Rightarrow> real list \<Rightarrow> error + real list" where
  "np_sub ys xs =
     (if length ys = length xs then Inr (map2 (-) ys xs)
      else case ys of
        [y] \<Rightarrow> Inr (map (\<lambda>x. y - x) xs)
      | _ \<Rightarrow> (case xs of
                [x] \<Rightarrow> Inr (map (\<lambda>y. y - x) ys)
              | _ \<Rightarrow> Inl NumpyValueError))"

text \<open>\<open>np.max\<close> raises \<open>ValueError\<close> on a zero-size array.\<close>

definition np_max :: "real list \<Rightarrow> error + real" where
  "np_max xs = (case xs of [] \<Rightarrow> Inl NumpyValueError | y # ys \<Rightarrow> Inr (fold max ys y))"

text \<open>
  \<open>np.mean\<close> of a zero-size array is NaN (with a warning), which the reals do not
  have: the model stops there with \<open>NotANumber\<close>.
\<close>

definition np_mean :: "real list \<Rightarrow> error + real" where
  "np_mean xs = (if xs = [] then Inl NotANumber else Inr (sum_list xs / real (length xs)))"

text \<open>The slice \<open>xs[:k]\<close> for a Python int \<open>k\<close>.\<close>

definition py_take :: "int \<Rightarrow> 'a list \<Rightarrow> 'a list" where
  "py_take k xs = (if 0 \<le> k then take (nat k) xs else take (length xs - nat (- k)) xs)"

section \<open>Constrained OLS\<close>

text \<open>
  \<open>scipy.optimize.minimize(objective, x0=.., method='COBYLA', constraints={'type':
  'ineq', 'fun': constraint}, options=..)\<close> is the parameter \<open>minimize\<close>: it is given
  the objective, the starting point, the constraint function and the options, and
  returns \<open>result.x\<close> and \<open>result.success\<close>, or the exception that left it.
\<close>

record cobyla_options =
  maxiter :: nat
  rhobeg :: real
  tol :: real
  catol :: real

record opt_result =
  res_x :: "real list"
  res_success :: bool

type_synonym cobyla =
  "(real list \<Rightarrow> error + real) \<Rightarrow> real list \<Rightarrow> (real list \<Rightarrow> error + real)
     \<Rightarrow> cobyla_options \<Rightarrow> error + opt_result"

text \<open>
  What a call does besides returning: each call of the optimizer, with its options, and
  the warning about the constraint violation, in order.
\<close>

datatype event = Minimize cobyla_options | Warning real

definition first_options :: cobyla_options where
  "first_options = \<lparr>maxiter = 2000000, rhobeg = 1/2, tol = 1 / 10 ^ 8, catol = 1 / 10 ^ 10\<rparr>"

definition retry_options :: cobyla_options where
  "retry_options = \<lparr>maxiter = 5000000, rhobeg = 1/10, tol = 1 / 10 ^ 10, catol = 1 / 10 ^ 12\<rparr>"

definition objective :: "real list \<Rightarrow> real list list \<Rightarrow> real list \<Rightarrow> error + real" where
  "objective Y X beta =
     and_then (np_matmul X beta) (\<lambda>Xb.
     and_then (np_sub Y Xb) (\<lambda>residuals.
       np_mean (map (\<lambda>r. r ^ 2) residuals)))"

definition constraint :: "real \<Rightarrow> int \<Rightarrow> real list \<Rightarrow> error + real" where
  "constraint delta no_placebos beta =
     and_then (np_max (map abs (py_take no_placebos beta))) (\<lambda>m. Inr (m - delta))"

definition constrained_ols ::
  "cobyla \<Rightarrow> real list \<Rightarrow> real list list \<Rightarrow> real \<Rightarrow> int \<Rightarrow> real list \<Rightarrow> real option
     \<Rightarrow> (error + real list \<times> bool) \<times> event list" where
  "constrained_ols minimize Y X delta no_placebos start_val max_unconstr_coef =
     (case validate_positive delta ''delta'' of
        Inl e \<Rightarrow> (Inl e, [])
      | Inr _ \<Rightarrow>
     if no_placebos < 1 then (Inl (InvalidArgument ''no_placebos''), [])
     else
     case np_asarray_2d X of
        Inl e \<Rightarrow> (Inl e, [])
      | Inr X \<Rightarrow>
     case (case max_unconstr_coef of
             None \<Rightarrow> np_max (map abs (py_take no_placebos start_val))
           | Some m \<Rightarrow> Inr m) of
        Inl e \<Rightarrow> (Inl e, [])
      | Inr max_unconstr \<Rightarrow>
     if max_unconstr \<ge> delta then (Inr (start_val, True), [])
     else
     case minimize (objective Y X) start_val (constraint delta no_placebos) first_options of
        Inl e \<Rightarrow> (Inl e, [Minimize first_options])
      | Inr first \<Rightarrow>
     let (attempt, log) =
           (if \<not> res_success first
            then (minimize (objective Y X) start_val (constraint delta no_placebos) retry_options,
                  [Minimize first_options, Minimize retry_options])
            else (Inr first, [Minimize first_options]))
     in
     case attempt of
        Inl e \<Rightarrow> (Inl e, log)
      | Inr result \<Rightarrow>
     case constraint delta no_placebos (res_x result) of
        Inl e \<Rightarrow> (Inl e, log)
      | Inr c \<Rightarrow>
     let violation = - c
     in (Inr (res_x result, res_success result),
         if violation > 1 / 10 ^ 8 then log @ [Warning violation] else log))"

section \<open>Residual variance\<close>

definition sigma_hathat_c ::
  "real list \<Rightarrow> real list list \<Rightarrow> real list \<Rightarrow> 'a list \<Rightarrow> 'b list \<Rightarrow> error + real" where
  "sigma_hathat_c parameter X Y ID time =
     and_then (np_asarray_2d X) (\<lambda>X.
       if length ID = 0 then Inl (InvalidArgument ''ID'')
       else if length time = 0 then Inl (InvalidArgument ''time'')
       else
         and_then (np_matmul X parameter) (\<lambda>Xb.
         and_then (np_sub Y Xb) (\<lambda>residuals.
           let N = int (length ID);
               n = int (length (remdups ID));
               T = int (length (remdups time))
           in and_then (shape1 X) (\<lambda>p.
                let df = N - int p - n - T + 1
                in if df \<le> 0 then Inl (DegreesOfFreedomError df N (int p) n T)
                   else Inr (sum_list (map (\<lambda>r. r ^ 2) residuals) / real_of_int df)))))"

section \<open>Minimum threshold search, IU method\<close>




section \<open>Vocabulary of the statements\<close>

text \<open>\<open>X\<close> is an \<open>N \<times> p\<close> array.\<close>

definition is_matrix :: "real list list \<Rightarrow> nat \<Rightarrow> nat \<Rightarrow> bool" where
  "is_matrix X N p \<longleftrightarrow> length X = N \<and> list_all (\<lambda>r. length r = p) X"

text \<open>
  What the statements below ask of scipy's COBYLA: called with an objective and a
  constraint that are defined on every vector of the dimension of the starting point, it
  returns a result of that dimension, and it looks at the two functions on vectors of
  that dimension only.
\<close>

definition keeps_dimension :: "cobyla \<Rightarrow> bool" where
  "keeps_dimension minimize \<longleftrightarrow>
     (\<forall>f g x0 opts.
        (\<forall>b. length b = length x0 \<longrightarrow> (\<exists>v. f b = Inr v) \<and> (\<exists>c. g b = Inr c)) \<longrightarrow>
        (\<exists>r. minimize f x0 g opts = Inr r \<and> length (res_x r) = length x0))
     \<and> (\<forall>f f' g g' x0 opts.
        (\<forall>b. length b = length x0 \<longrightarrow> f b = f' b \<and> g b = g' b) \<longrightarrow>
        minimize f x0 g opts = minimize f' x0 g' opts)"


text \<open>
  Two optimizers for the concrete instances: one returns its starting point and reports
  no success; one returns the midpoint of its bounds and, as scipy does, raises
  \<open>ValueError\<close> when the lower bound exceeds the upper bound.
\<close>

definition stay_at_start :: cobyla where
  "stay_at_start f x0 g opts = Inr \<lparr>res_x = x0, res_success = False\<rparr>"


section \<open>Properties of the folded normal functions\<close>

lemmas validate_defs =
  and_then_def validate_probability_def validate_positive_def validate_non_negative_def

text \<open>
  Claim C3. For every probability \<open>p\<close> in (0,1), every location \<open>m\<close> and every scale
  \<open>s > 0\<close>, \<open>qfoldnorm(p, m, s)\<close> equals \<open>qfoldnorm(p, -m, s)\<close> exactly, whichever
  branch is taken (degenerate scale, extreme shape, standard), and both calls return a value.
\<close>

theorem qfoldnorm_sign_symmetry:
  assumes "0 < p" and "p < 1" and "0 < s"
  shows "qfoldnorm norm_ppf foldnorm_ppf p (- m) s = qfoldnorm norm_ppf foldnorm_ppf p m s
         \<and> (\<exists>q. qfoldnorm norm_ppf foldnorm_ppf p m s = Inr q)"
  using assms by (simp add: qfoldnorm_def validate_defs Let_def)

theorem qfoldnorm_sign_symmetry_witness:
  "\<forall>norm_ppf foldnorm_ppf.
     qfoldnorm norm_ppf foldnorm_ppf (1/2) (- (1/5)) (1/10)
       = qfoldnorm norm_ppf foldnorm_ppf (1/2) (1/5) (1/10)
     \<and> (\<exists>q. qfoldnorm norm_ppf foldnorm_ppf (1/2) (1/5) (1/10) = Inr q)"
proof (intro allI)
  fix norm_ppf :: "real \<Rightarrow> real" and foldnorm_ppf :: "real \<Rightarrow> real \<Rightarrow> real \<Rightarrow> real"
  have a: "(0::real) < 1/2" and b: "(1/2::real) < 1" and c: "(0::real) < 1/10" by simp_all
  show "qfoldnorm norm_ppf foldnorm_ppf (1/2) (- (1/5)) (1/10)
       = qfoldnorm norm_ppf foldnorm_ppf (1/2) (1/5) (1/10)
     \<and> (\<exists>q. qfoldnorm norm_ppf foldnorm_ppf (1/2) (1/5) (1/10) = Inr q)"
    using qfoldnorm_sign_symmetry [OF a b c, of norm_ppf foldnorm_ppf "1/5"] .
qed

text \<open>
  Claim C4. For every \<open>x \<ge> 0\<close>, location \<open>m\<close> and scale \<open>s\<close> with \<open>1e-15 \<le> s\<close>
  (the non-degenerate branch), \<open>pfoldnorm(x, m, s)\<close> is the two-term formula
  \<open>\<Phi>((x - |m|)/s) + \<Phi>((x + |m|)/s) - 1\<close> clipped into [0, 1]; in particular the returned
  probability lies in [0, 1], whatever \<open>\<Phi>\<close> returns.
\<close>

theorem pfoldnorm_two_term_clipped:
  assumes "0 \<le> x" and "1 / 10 ^ 15 \<le> s"
  shows "pfoldnorm Phi x m s
           = Inr (max 0 (min 1 (Phi ((x - \<bar>m\<bar>) / s) + Phi ((x + \<bar>m\<bar>) / s) - 1)))
         \<and> (\<exists>r. pfoldnorm Phi x m s = Inr r \<and> 0 \<le> r \<and> r \<le> 1)"
proof -
  have pos: "0 < s"
    using assms(2) by (rule less_le_trans [rotated]) simp
  have nd: "\<not> s < FOLDNORM_SD_MIN"
    using assms(2) by (simp add: FOLDNORM_SD_MIN_def)
  have "pfoldnorm Phi x m s
          = Inr (np_clip (Phi ((x - \<bar>m\<bar>) / s) + Phi ((x + \<bar>m\<bar>) / s) - 1) 0 1)"
    using assms(1) pos nd by (simp add: pfoldnorm_def validate_defs Let_def)
  moreover have "np_clip v 0 1 = max 0 (min 1 v)" for v :: real
    by (simp add: np_clip_def min_def max_def)
  ultimately show ?thesis by simp
qed

theorem pfoldnorm_two_term_clipped_witness:
  "\<forall>Phi. pfoldnorm Phi (3/20) (1/5) (1/20)
           = Inr (max 0 (min 1 (Phi ((3/20 - \<bar>1/5\<bar>) / (1/20)) + Phi ((3/20 + \<bar>1/5\<bar>) / (1/20)) - 1)))
         \<and> (\<exists>r. pfoldnorm Phi (3/20) (1/5) (1/20) = Inr r \<and> 0 \<le> r \<and> r \<le> 1)"
proof (intro allI)
  fix Phi :: "real \<Rightarrow> real"
  have a: "(0::real) \<le> 3/20" and b: "(1::real) / 10 ^ 15 \<le> 1/20" by simp_all
  show "pfoldnorm Phi (3/20) (1/5) (1/20)
           = Inr (max 0 (min 1 (Phi ((3/20 - \<bar>1/5\<bar>) / (1/20)) + Phi ((3/20 + \<bar>1/5\<bar>) / (1/20)) - 1)))
         \<and> (\<exists>r. pfoldnorm Phi (3/20) (1/5) (1/20) = Inr r \<and> 0 \<le> r \<and> r \<le> 1)"
    using pfoldnorm_two_term_clipped [OF a b, of Phi "1/5"] .
qed

text \<open>
  Claim C5. For every scale \<open>s\<close> with \<open>0 < s < 1e-15\<close>: \<open>qfoldnorm(p, m, s)\<close> returns
  \<open>|m|\<close> for every \<open>p\<close> in (0,1), and \<open>pfoldnorm(x, m, s)\<close> returns 1 when \<open>x \<ge> |m|\<close>
  and 0 when \<open>0 \<le> x < |m|\<close> (point mass, step function).
\<close>

theorem foldnorm_degenerate_scale:
  assumes "0 < s" and "s < 1 / 10 ^ 15"
  shows "(0 < p \<and> p < 1 \<longrightarrow> qfoldnorm norm_ppf foldnorm_ppf p m s = Inr \<bar>m\<bar>)
         \<and> (\<bar>m\<bar> \<le> x \<longrightarrow> pfoldnorm norm_cdf x m s = Inr 1)
         \<and> (0 \<le> x \<and> x < \<bar>m\<bar> \<longrightarrow> pfoldnorm norm_cdf x m s = Inr 0)"
proof -
  have deg: "s < FOLDNORM_SD_MIN"
    using assms(2) by (simp add: FOLDNORM_SD_MIN_def)
  have q: "qfoldnorm norm_ppf foldnorm_ppf p m s = Inr \<bar>m\<bar>" if "0 < p" "p < 1"
    using that assms(1) deg by (simp add: qfoldnorm_def validate_defs)
  have p1: "pfoldnorm norm_cdf x m s = Inr 1" if "\<bar>m\<bar> \<le> x"
  proof -
    have "0 \<le> x" using that by linarith
    then show ?thesis
      using that assms(1) deg by (simp add: pfoldnorm_def validate_defs)
  qed
  have p0: "pfoldnorm norm_cdf x m s = Inr 0" if "0 \<le> x" "x < \<bar>m\<bar>"
    using that assms(1) deg by (simp add: pfoldnorm_def validate_defs)
  from q p1 p0 show ?thesis by blast
qed

theorem foldnorm_degenerate_scale_witness:
  "\<forall>norm_ppf foldnorm_ppf norm_cdf.
     qfoldnorm norm_ppf foldnorm_ppf (1/2) (1/5) (1 / 10 ^ 16) = Inr (1/5)
     \<and> pfoldnorm norm_cdf (1/5) (1/5) (1 / 10 ^ 16) = Inr 1
     \<and> pfoldnorm norm_cdf (1/10) (1/5) (1 / 10 ^ 16) = Inr 0"
proof (intro allI)
  fix norm_ppf :: "real \<Rightarrow> real" and foldnorm_ppf :: "real \<Rightarrow> real \<Rightarrow> real \<Rightarrow> real"
    and norm_cdf :: "real \<Rightarrow> real"
  have a: "(0::real) < 1 / 10 ^ 16" and b: "(1::real) / 10 ^ 16 < 1 / 10 ^ 15" by simp_all
  show "qfoldnorm norm_ppf foldnorm_ppf (1/2) (1/5) (1 / 10 ^ 16) = Inr (1/5)
     \<and> pfoldnorm norm_cdf (1/5) (1/5) (1 / 10 ^ 16) = Inr 1
     \<and> pfoldnorm norm_cdf (1/10) (1/5) (1 / 10 ^ 16) = Inr 0"
    using foldnorm_degenerate_scale [OF a b, of "1/2" norm_ppf foldnorm_ppf "1/5" "1/5" norm_cdf]
      foldnorm_degenerate_scale [OF a b, of "1/2" norm_ppf foldnorm_ppf "1/5" "1/10" norm_cdf]
    by simp
qed

text \<open>
  Claim C6. \<open>qfoldnorm\<close> raises \<open>InvalidArgument\<close> exactly when \<open>p\<close> is not strictly
  between 0 and 1 or \<open>sd \<le> 0\<close>, and \<open>pfoldnorm\<close> raises \<open>InvalidArgument\<close> exactly when
  \<open>x < 0\<close> or \<open>sd \<le> 0\<close>. The error is the whole outcome of the call and is the same
  whatever the scipy functions are, so it is raised before anything is computed; on all
  other arguments a value is returned.
\<close>

theorem foldnorm_invalid_argument:
  "(\<not> (0 < p \<and> p < 1) \<longrightarrow>
      qfoldnorm norm_ppf foldnorm_ppf p m sd = Inl (InvalidArgument ''p''))
   \<and> (0 < p \<and> p < 1 \<and> sd \<le> 0 \<longrightarrow>
      qfoldnorm norm_ppf foldnorm_ppf p m sd = Inl (InvalidArgument ''sd''))
   \<and> (0 < p \<and> p < 1 \<and> 0 < sd \<longrightarrow>
      (\<exists>q. qfoldnorm norm_ppf foldnorm_ppf p m sd = Inr q))
   \<and> (x < 0 \<longrightarrow> pfoldnorm norm_cdf x m sd = Inl (InvalidArgument ''x''))
   \<and> (0 \<le> x \<and> sd \<le> 0 \<longrightarrow> pfoldnorm norm_cdf x m sd = Inl (InvalidArgument ''sd''))
   \<and> (0 \<le> x \<and> 0 < sd \<longrightarrow> (\<exists>r. pfoldnorm norm_cdf x m sd = Inr r))"
  by (simp add: qfoldnorm_def pfoldnorm_def validate_defs Let_def)

theorem foldnorm_invalid_argument_witness:
  "\<forall>norm_ppf foldnorm_ppf norm_cdf.
     qfoldnorm norm_ppf foldnorm_ppf 0 0 1 = Inl (InvalidArgument ''p'')
     \<and> qfoldnorm norm_ppf foldnorm_ppf 1 0 1 = Inl (InvalidArgument ''p'')
     \<and> qfoldnorm norm_ppf foldnorm_ppf (1/2) 0 0 = Inl (InvalidArgument ''sd'')
     \<and> qfoldnorm norm_ppf foldnorm_ppf (1/2) 0 (- 1) = Inl (InvalidArgument ''sd'')
     \<and> (\<exists>q. qfoldnorm norm_ppf foldnorm_ppf (1/2) 0 1 = Inr q)
     \<and> pfoldnorm norm_cdf (- (1/2)) 0 1 = Inl (InvalidArgument ''x'')
     \<and> pfoldnorm norm_cdf (1/2) 0 0 = Inl (InvalidArgument ''sd'')
     \<and> (\<exists>r. pfoldnorm norm_cdf (1/2) 0 1 = Inr r)"
proof (intro allI)
  fix norm_ppf :: "real \<Rightarrow> real" and foldnorm_ppf :: "real \<Rightarrow> real \<Rightarrow> real \<Rightarrow> real"
    and norm_cdf :: "real \<Rightarrow> real"
  show "qfoldnorm norm_ppf foldnorm_ppf 0 0 1 = Inl (InvalidArgument ''p'')
     \<and> qfoldnorm norm_ppf foldnorm_ppf 1 0 1 = Inl (InvalidArgument ''p'')
     \<and> qfoldnorm norm_ppf foldnorm_ppf (1/2) 0 0 = Inl (InvalidArgument ''sd'')
     \<and> qfoldnorm norm_ppf foldnorm_ppf (1/2) 0 (- 1) = Inl (InvalidArgument ''sd'')
     \<and> (\<exists>q. qfoldnorm norm_ppf foldnorm_ppf (1/2) 0 1 = Inr q)
     \<and> pfoldnorm norm_cdf (- (1/2)) 0 1 = Inl (InvalidArgument ''x'')
     \<and> pfoldnorm norm_cdf (1/2) 0 0 = Inl (InvalidArgument ''sd'')
     \<and> (\<exists>r. pfoldnorm norm_cdf (1/2) 0 1 = Inr r)"
    using foldnorm_invalid_argument [of 0 norm_ppf foldnorm_ppf 0 1 "- (1/2)" norm_cdf]
      foldnorm_invalid_argument [of 1 norm_ppf foldnorm_ppf 0 1 "1/2" norm_cdf]
      foldnorm_invalid_argument [of "1/2" norm_ppf foldnorm_ppf 0 0 "1/2" norm_cdf]
      foldnorm_invalid_argument [of "1/2" norm_ppf foldnorm_ppf 0 "- 1" "1/2" norm_cdf]
      foldnorm_invalid_argument [of "1/2" norm_ppf foldnorm_ppf 0 1 "1/2" norm_cdf]
    by simp
qed

section \<open>Properties of the array operations\<close>

lemma np_asarray_2d_matrix: "is_matrix X N p \<Longrightarrow> np_asarray_2d X = Inr X"
  by (cases X) (auto simp: is_matrix_def np_asarray_2d_def list_all_iff)

lemma np_max_Max:
  assumes "xs \<noteq> []"
  shows "np_max xs = Inr (Max (set xs))"
proof (cases xs)
  case Nil
  then show ?thesis using assms by simp
next
  case (Cons y ys)
  have "Max (set (y # ys)) = fold max ys y" by (rule Max.set_eq_fold)
  then show ?thesis using Cons by (simp add: np_max_def)
qed

lemma py_take_all: "int (length xs) \<le> k \<Longrightarrow> py_take k xs = xs"
  by (simp add: py_take_def)

lemma py_take_pos: "1 \<le> k \<Longrightarrow> py_take k xs = take (nat k) xs"
  by (simp add: py_take_def)

lemma sum_list_map2_nth:
  "length xs = length ys \<Longrightarrow> sum_list (map2 (*) xs ys) = (\<Sum>j<length xs. xs ! j * ys ! (j::nat) :: real)"
proof -
  assume l: "length xs = length ys"
  have "sum_list (map2 (*) xs ys) = (\<Sum>j = 0..<length (map2 (*) xs ys). map2 (*) xs ys ! j)"
    by (rule sum_list_sum_nth)
  also have "\<dots> = (\<Sum>j = 0..<length xs. xs ! j * ys ! j)"
    using l by (intro sum.cong) auto
  finally show ?thesis by (simp add: atLeast0LessThan)
qed

lemma np_matmul_matrix:
  assumes "is_matrix X N p" "0 < N" "length b = p"
  shows "np_matmul X b = Inr (map (\<lambda>row. \<Sum>j<p. row ! j * b ! j) X)"
proof -
  obtain r rs where X: "X = r # rs" using assms(1,2) by (cases X) (auto simp: is_matrix_def)
  have rows: "\<And>row. row \<in> set X \<Longrightarrow> length row = p"
    using assms(1) by (auto simp: is_matrix_def list_all_iff)
  have "map (\<lambda>row. sum_list (map2 (*) row b)) X = map (\<lambda>row. \<Sum>j<p. row ! j * b ! j) X"
    using rows assms(3) by (intro map_cong refl) (simp add: sum_list_map2_nth)
  then show ?thesis using X rows assms(3) by (simp add: np_matmul_def)
qed

lemma sum_list_map_upt: "sum_list (map g [0..<N]) = (\<Sum>i<N. (g i :: real))"
  by (simp add: sum_list_sum_nth atLeast0LessThan)

lemma np_sub_matrix:
  assumes "is_matrix X N p" "length Y = N"
  shows "np_sub Y (map (\<lambda>row. \<Sum>j<p. row ! j * b ! j) X)
           = Inr (map (\<lambda>i. Y ! i - (\<Sum>j<p. X ! i ! j * b ! j)) [0..<N])"
proof -
  have lX: "length X = N" using assms(1) by (simp add: is_matrix_def)
  have "map2 (-) Y (map (\<lambda>row. \<Sum>j<p. row ! j * b ! j) X)
          = map (\<lambda>i. Y ! i - (\<Sum>j<p. X ! i ! j * b ! j)) [0..<N]"
    using lX assms(2) by (intro nth_equalityI) auto
  then show ?thesis using lX assms(2) by (simp add: np_sub_def)
qed

lemma shape1_matrix: "is_matrix X N p \<Longrightarrow> 0 < N \<Longrightarrow> shape1 X = Inr p"
  by (cases X) (auto simp: is_matrix_def shape1_def)

lemma abs_take_nonempty: "1 \<le> k \<Longrightarrow> sv \<noteq> [] \<Longrightarrow> map abs (take (nat k) sv) \<noteq> []"
  by (cases sv) (auto simp: take_Cons')

section \<open>Properties of the constrained estimator\<close>

text \<open>
  Claim C1. For every response vector \<open>Y\<close>, design matrix \<open>X\<close>, starting vector
  \<open>start_val\<close>, placebo count \<open>k \<ge> 1\<close> and margin \<open>delta > 0\<close> with
  \<open>max(|start_val[0:k]|) \<ge> delta\<close>, \<open>constrained_ols\<close> (called without
  \<open>max_unconstr_coef\<close>) returns the starting vector itself with convergence flag true;
  the optimizer is never called and no warning is issued, whatever the optimizer is.
\<close>

theorem constrained_ols_fast_path:
  assumes "0 < delta" and "1 \<le> k" and "is_matrix X N p" and "start_val \<noteq> []"
    and "delta \<le> Max ((\<lambda>b. \<bar>b\<bar>) ` set (take (nat k) start_val))"
  shows "constrained_ols minimize Y X delta k start_val None = (Inr (start_val, True), [])"
proof -
  have "np_max (map abs (py_take k start_val))
          = Inr (Max ((\<lambda>b. \<bar>b\<bar>) ` set (take (nat k) start_val)))"
    using np_max_Max [OF abs_take_nonempty [OF assms(2,4)]] assms(2)
    by (simp add: py_take_pos)
  then show ?thesis
    using assms(1,2,5)
    by (simp add: constrained_ols_def validate_positive_def np_asarray_2d_matrix [OF assms(3)])
qed

theorem constrained_ols_fast_path_witness:
  "\<forall>minimize.
     constrained_ols minimize [1] [[1, 0, 0, 0, 0]] (1/20) 3 [1/10, 1/5, 3/10, 2/5, 1/2] None
       = (Inr ([1/10, 1/5, 3/10, 2/5, 1/2], True), [])"
proof (intro allI)
  fix minimize :: cobyla
  show "constrained_ols minimize [1] [[1, 0, 0, 0, 0]] (1/20) 3 [1/10, 1/5, 3/10, 2/5, 1/2] None
       = (Inr ([1/10, 1/5, 3/10, 2/5, 1/2], True), [])"
    by (rule constrained_ols_fast_path [where N = 1 and p = 5])
      (simp_all add: is_matrix_def)
qed

text \<open>
  Claim C9. When the caller supplies \<open>max_unconstr_coef\<close>, the fast-path decision rests
  on the supplied value alone: with \<open>max_unconstr_coef \<ge> delta\<close> the call returns
  \<open>start_val\<close> unchanged with convergence true and without calling the optimizer, for
  every \<open>start_val\<close>, and when \<open>max(|start_val[0:k]|) < delta\<close> the returned vector
  violates the constraint (the constraint function is negative at it).
\<close>

theorem constrained_ols_supplied_max:
  assumes "0 < delta" and "1 \<le> k" and "is_matrix X N p" and "delta \<le> m"
  shows "constrained_ols minimize Y X delta k start_val (Some m) = (Inr (start_val, True), [])
    \<and> (start_val \<noteq> [] \<and> Max ((\<lambda>b. \<bar>b\<bar>) ` set (take (nat k) start_val)) < delta \<longrightarrow>
         (\<exists>c. constraint delta k start_val = Inr c \<and> c < 0))"
proof
  show "constrained_ols minimize Y X delta k start_val (Some m) = (Inr (start_val, True), [])"
    using assms(1,2,4)
    by (simp add: constrained_ols_def validate_positive_def np_asarray_2d_matrix [OF assms(3)])
next
  show "start_val \<noteq> [] \<and> Max ((\<lambda>b. \<bar>b\<bar>) ` set (take (nat k) start_val)) < delta \<longrightarrow>
         (\<exists>c. constraint delta k start_val = Inr c \<and> c < 0)"
  proof
    assume a: "start_val \<noteq> [] \<and> Max ((\<lambda>b. \<bar>b\<bar>) ` set (take (nat k) start_val)) < delta"
    then have "np_max (map abs (py_take k start_val))
          = Inr (Max ((\<lambda>b. \<bar>b\<bar>) ` set (take (nat k) start_val)))"
      using np_max_Max [OF abs_take_nonempty [OF assms(2)]] assms(2)
      by (simp add: py_take_pos)
    then show "\<exists>c. constraint delta k start_val = Inr c \<and> c < 0"
      using a by (simp add: constraint_def and_then_def)
  qed
qed

theorem constrained_ols_supplied_max_witness:
  "\<forall>minimize.
     constrained_ols minimize [1] [[1, 0]] 1 2 [1/10, 1/5] (Some 2)
       = (Inr ([1/10, 1/5], True), [])
     \<and> (\<exists>c. constraint 1 2 [1/10, 1/5] = Inr c \<and> c < 0)"
proof (intro allI)
  fix minimize :: cobyla
  have m: "is_matrix [[1, 0]] 1 2" by (simp add: is_matrix_def)
  show "constrained_ols minimize [1] [[1, 0]] 1 2 [1/10, 1/5] (Some 2)
       = (Inr ([1/10, 1/5], True), [])
     \<and> (\<exists>c. constraint 1 2 [1/10, 1/5] = Inr c \<and> c < 0)"
    using constrained_ols_supplied_max [OF _ _ m, of 1 2 2 minimize "[1]" "[1/10, 1/5]"]
    by simp
qed

section \<open>Properties of the residual variance\<close>

lemma sigma_hathat_c_matrix:
  assumes "is_matrix X N p" "0 < N" "length parameter = p" "length Y = N"
    and "length ID = N" "length time = N"
  shows "sigma_hathat_c parameter X Y ID time =
     (if int N - int p - int (card (set ID)) - int (card (set time)) + 1 \<le> 0
      then Inl (DegreesOfFreedomError
                  (int N - int p - int (card (set ID)) - int (card (set time)) + 1)
                  (int N) (int p) (int (card (set ID))) (int (card (set time))))
      else Inr ((\<Sum>i<N. (Y ! i - (\<Sum>j<p. X ! i ! j * parameter ! j)) ^ 2)
                / real_of_int (int N - int p - int (card (set ID)) - int (card (set time)) + 1)))"
  using assms(2,5,6)
  by (simp add: sigma_hathat_c_def and_then_def np_asarray_2d_matrix [OF assms(1)]
      np_matmul_matrix [OF assms(1,2,3)] np_sub_matrix [OF assms(1,4)]
      shape1_matrix [OF assms(1,2)] sum_list_map_upt comp_def length_remdups_card_conv Let_def)

text \<open>
  Claim C2. For a coefficient vector of length \<open>p\<close>, an \<open>N \<times> p\<close> design matrix, a
  response of length \<open>N\<close> and non-empty ID and time sequences of length \<open>N\<close>, with
  \<open>df = N - p - n - T + 1\<close> (\<open>n\<close>, \<open>T\<close> the numbers of distinct IDs and time
  values): \<open>sigma_hathat_c\<close> returns \<open>sum((Y - X beta)^2) / df\<close> when \<open>df > 0\<close> and
  raises \<open>DegreesOfFreedomError\<close>, carrying \<open>df, N, p, n, T\<close>, when \<open>df \<le> 0\<close>. It
  raises \<open>InvalidArgument\<close> when the ID sequence is empty, and when the time sequence is.
\<close>

theorem sigma_hathat_c_contract:
  assumes "is_matrix X N p"
  shows "(ID = [] \<longrightarrow> sigma_hathat_c parameter X Y ID time = Inl (InvalidArgument ''ID''))
    \<and> (ID \<noteq> [] \<and> time = [] \<longrightarrow>
         sigma_hathat_c parameter X Y ID time = Inl (InvalidArgument ''time''))
    \<and> (0 < N \<and> length parameter = p \<and> length Y = N \<and> length ID = N \<and> length time = N \<longrightarrow>
         (0 < int N - int p - int (card (set ID)) - int (card (set time)) + 1 \<longrightarrow>
            sigma_hathat_c parameter X Y ID time
              = Inr ((\<Sum>i<N. (Y ! i - (\<Sum>j<p. X ! i ! j * parameter ! j)) ^ 2)
                     / real_of_int (int N - int p - int (card (set ID)) - int (card (set time)) + 1)))
       \<and> (int N - int p - int (card (set ID)) - int (card (set time)) + 1 \<le> 0 \<longrightarrow>
            sigma_hathat_c parameter X Y ID time
              = Inl (DegreesOfFreedomError
                       (int N - int p - int (card (set ID)) - int (card (set time)) + 1)
                       (int N) (int p) (int (card (set ID))) (int (card (set time))))))"
proof (intro conjI impI)
  assume "ID = []"
  then show "sigma_hathat_c parameter X Y ID time = Inl (InvalidArgument ''ID'')"
    by (simp add: sigma_hathat_c_def and_then_def np_asarray_2d_matrix [OF assms])
next
  assume "ID \<noteq> [] \<and> time = []"
  then show "sigma_hathat_c parameter X Y ID time = Inl (InvalidArgument ''time'')"
    by (simp add: sigma_hathat_c_def and_then_def np_asarray_2d_matrix [OF assms])
next
  assume s: "0 < N \<and> length parameter = p \<and> length Y = N \<and> length ID = N \<and> length time = N"
    and d: "0 < int N - int p - int (card (set ID)) - int (card (set time)) + 1"
  show "sigma_hathat_c parameter X Y ID time
          = Inr ((\<Sum>i<N. (Y ! i - (\<Sum>j<p. X ! i ! j * parameter ! j)) ^ 2)
                 / real_of_int (int N - int p - int (card (set ID)) - int (card (set time)) + 1))"
    using sigma_hathat_c_matrix [OF assms, of parameter Y ID time] s d by simp
next
  assume s: "0 < N \<and> length parameter = p \<and> length Y = N \<and> length ID = N \<and> length time = N"
    and d: "int N - int p - int (card (set ID)) - int (card (set time)) + 1 \<le> 0"
  show "sigma_hathat_c parameter X Y ID time
          = Inl (DegreesOfFreedomError
                   (int N - int p - int (card (set ID)) - int (card (set time)) + 1)
                   (int N) (int p) (int (card (set ID))) (int (card (set time))))"
    using sigma_hathat_c_matrix [OF assms, of parameter Y ID time] s d by simp
qed

theorem sigma_hathat_c_contract_witness:
  "sigma_hathat_c [1] [[1], [2], [3]] [1, 2, 4] ([] :: nat list) [1 :: nat, 1, 1]
     = Inl (InvalidArgument ''ID'')
   \<and> sigma_hathat_c [1] [[1], [2], [3]] [1, 2, 4] [1 :: nat, 1, 1] ([] :: nat list)
     = Inl (InvalidArgument ''time'')
   \<and> sigma_hathat_c [1] [[1], [2], [3]] [1, 2, 4] [1 :: nat, 1, 1] [1 :: nat, 1, 1] = Inr 1
   \<and> sigma_hathat_c [1] [[1], [2], [3]] [1, 2, 4] [1 :: nat, 2, 3] [1 :: nat, 2, 3]
     = Inl (DegreesOfFreedomError (- 3) 3 1 3 3)"
proof -
  have m: "is_matrix [[1], [2], [3]] 3 1" by (simp add: is_matrix_def)
  show ?thesis
    using sigma_hathat_c_contract [OF m, of "[] :: nat list" "[1]" "[1, 2, 4]" "[1 :: nat, 1, 1]"]
      sigma_hathat_c_contract [OF m, of "[1 :: nat, 1, 1]" "[1]" "[1, 2, 4]" "[] :: nat list"]
      sigma_hathat_c_contract [OF m, of "[1 :: nat, 1, 1]" "[1]" "[1, 2, 4]" "[1 :: nat, 1, 1]"]
      sigma_hathat_c_contract [OF m, of "[1 :: nat, 2, 3]" "[1]" "[1, 2, 4]" "[1 :: nat, 2, 3]"]
    by (simp add: lessThan_Suc eval_nat_numeral)
qed

text \<open>
  Claim C8, as stated: for every well-posed input (\<open>df = N - p - n - T + 1 > 0\<close>) the
  value returned by \<open>sigma_hathat_c\<close> is strictly positive. It is not: a coefficient
  vector that fits the response exactly gives 0.
\<close>

theorem sigma_hathat_c_positive_counterexample:
  "is_matrix [[0], [0], [0]] 3 1
   \<and> 0 < int 3 - int 1 - int (card (set [1 :: nat, 1, 1])) - int (card (set [1 :: nat, 1, 1])) + 1
   \<and> sigma_hathat_c [0] [[0], [0], [0]] [0, 0, 0] [1 :: nat, 1, 1] [1 :: nat, 1, 1] = Inr 0
   \<and> \<not> (0 :: real) < 0"
  by (simp add: is_matrix_def sigma_hathat_c_def and_then_def np_asarray_2d_def np_matmul_def
      np_sub_def shape1_def)

text \<open>
  Claim C8, amended: for every well-posed input (\<open>df = N - p - n - T + 1 > 0\<close>)
  \<open>sigma_hathat_c\<close> returns a value and that value is never negative. (It need not be
  positive: the instance above returns 0.)
\<close>

theorem sigma_hathat_c_never_negative:
  assumes "is_matrix X N p" and "0 < N" and "length parameter = p" and "length Y = N"
    and "length ID = N" and "length time = N"
    and "0 < int N - int p - int (card (set ID)) - int (card (set time)) + 1"
  shows "\<exists>v. sigma_hathat_c parameter X Y ID time = Inr v \<and> \<not> v < 0"
proof -
  let ?df = "int N - int p - int (card (set ID)) - int (card (set time)) + 1"
  let ?ssr = "\<Sum>i<N. (Y ! i - (\<Sum>j<p. X ! i ! j * parameter ! j)) ^ 2"
  have eq: "sigma_hathat_c parameter X Y ID time = Inr (?ssr / real_of_int ?df)"
    using sigma_hathat_c_matrix [OF assms(1-6)] assms(7) by simp
  have "0 \<le> ?ssr" by (intro sum_nonneg) simp
  moreover have "0 < real_of_int ?df" using assms(7) by simp
  ultimately have "0 \<le> ?ssr / real_of_int ?df" by simp
  then have "\<not> ?ssr / real_of_int ?df < 0" by simp
  with eq show ?thesis by blast
qed

theorem sigma_hathat_c_never_negative_witness:
  "\<exists>v. sigma_hathat_c [1] [[1], [2], [3]] [1, 2, 4] [1 :: nat, 1, 1] [1 :: nat, 1, 1] = Inr v
        \<and> \<not> v < 0"
  by (rule sigma_hathat_c_never_negative [where N = 3 and p = 1]) (simp_all add: is_matrix_def)

section \<open>Properties of the threshold search\<close>





section \<open>Placebo counts beyond the number of coefficients\<close>

lemma objective_defined:
  assumes "is_matrix X N p" "0 < N" "length Y = N" "length b = p"
  shows "\<exists>v. objective Y X b = Inr v"
  using assms(2)
  by (simp add: objective_def and_then_def np_matmul_matrix [OF assms(1,2,4)]
      np_sub_matrix [OF assms(1,3)] np_mean_def)

lemma constraint_whole:
  assumes "int (length b) \<le> k" "b \<noteq> []"
  shows "constraint delta k b = Inr (Max ((\<lambda>c. \<bar>c\<bar>) ` set b) - delta)"
proof -
  have "map abs b \<noteq> []" using assms(2) by simp
  from np_max_Max [OF this] show ?thesis
    using assms(1) by (simp add: constraint_def and_then_def py_take_all)
qed

lemma keeps_dimension_returns:
  assumes "keeps_dimension minimize"
    and "\<And>b. length b = length x0 \<Longrightarrow> (\<exists>v. f b = Inr v) \<and> (\<exists>c. g b = Inr c)"
  shows "\<exists>r. minimize f x0 g opts = Inr r \<and> length (res_x r) = length x0"
proof -
  from assms(1) have
    "(\<forall>b. length b = length x0 \<longrightarrow> (\<exists>v. f b = Inr v) \<and> (\<exists>c. g b = Inr c)) \<longrightarrow>
     (\<exists>r. minimize f x0 g opts = Inr r \<and> length (res_x r) = length x0)"
    unfolding keeps_dimension_def by (elim conjE) (erule allE [of _ f], erule allE [of _ g],
      erule allE [of _ x0], erule allE [of _ opts])
  with assms(2) show ?thesis by simp
qed

lemma keeps_dimension_cong:
  assumes "keeps_dimension minimize"
    and "\<And>b. length b = length x0 \<Longrightarrow> f b = f' b \<and> g b = g' b"
  shows "minimize f x0 g opts = minimize f' x0 g' opts"
proof -
  from assms(1) have
    "\<forall>f f' g g' x0 opts.
        (\<forall>b. length b = length x0 \<longrightarrow> f b = f' b \<and> g b = g' b) \<longrightarrow>
        minimize f x0 g opts = minimize f' x0 g' opts"
    unfolding keeps_dimension_def by (elim conjE)
  then have
    "(\<forall>b. length b = length x0 \<longrightarrow> f b = f' b \<and> g b = g' b) \<longrightarrow>
        minimize f x0 g opts = minimize f' x0 g' opts"
    by (elim allE)
  with assms(2) show ?thesis by simp
qed

lemma keeps_dimension_stay: "keeps_dimension stay_at_start"
  by (simp add: keeps_dimension_def stay_at_start_def)

text \<open>
  Claim C10, as stated: for every \<open>no_placebos = k > p\<close> (with \<open>k \<ge> 1\<close> and
  \<open>delta > 0\<close>) no error is raised. With no coefficients at all (\<open>p = 0\<close>) one is:
  the slice is empty and \<open>np.max\<close> raises \<open>ValueError\<close> on it.
\<close>

theorem constrained_ols_k_beyond_p_counterexample:
  "int (length ([] :: real list)) < 1 \<and> (0 :: real) < 1
   \<and> constrained_ols stay_at_start [1, 2] [[], []] 1 1 [] None = (Inl NumpyValueError, [])"
  by (simp add: constrained_ols_def validate_positive_def np_asarray_2d_def py_take_def np_max_def)

text \<open>
  Claim C10, amended: \<open>constrained_ols\<close> never checks \<open>k \<le> p\<close>. For every
  \<open>k > p\<close> with \<open>p \<ge> 1\<close> and \<open>delta > 0\<close> the slice \<open>start_val[0:k]\<close> is the
  whole vector, so the fast-path test and the constraint function are the maximum over
  all \<open>p\<close> coefficients; on a well-formed problem (\<open>X\<close> is \<open>N \<times> p\<close> with
  \<open>N \<ge> 1\<close>, \<open>Y\<close> has length \<open>N\<close>) and with an optimizer that keeps the dimension
  of its starting point, the whole outcome of the call is that of \<open>k = p\<close> and no error
  is raised.
\<close>

theorem constrained_ols_k_beyond_p:
  assumes "0 < delta" and "length start_val = p" and "1 \<le> p" and "int p < k"
    and "is_matrix X N p" and "0 < N" and "length Y = N" and "keeps_dimension minimize"
  shows "py_take k start_val = start_val
    \<and> np_max (map abs (py_take k start_val)) = Inr (Max ((\<lambda>c. \<bar>c\<bar>) ` set start_val))
    \<and> (\<forall>beta. length beta = p \<longrightarrow>
          constraint delta k beta = Inr (Max ((\<lambda>c. \<bar>c\<bar>) ` set beta) - delta))
    \<and> constrained_ols minimize Y X delta k start_val mu
        = constrained_ols minimize Y X delta (int p) start_val mu
    \<and> (\<exists>beta converged log.
          constrained_ols minimize Y X delta k start_val mu = (Inr (beta, converged), log))"
proof -
  have ne: "b \<noteq> []" if "length b = p" for b :: "real list"
    using that assms(3) by auto
  have tk: "py_take k start_val = start_val"
    using assms(2,4) by (simp add: py_take_all)
  have tp: "py_take (int p) start_val = start_val"
    using assms(2) by (simp add: py_take_all)
  have mx: "np_max (map abs start_val) = Inr (Max ((\<lambda>c. \<bar>c\<bar>) ` set start_val))"
    using np_max_Max [of "map abs start_val"] ne [OF assms(2)] by simp
  have ck: "constraint delta k b = Inr (Max ((\<lambda>c. \<bar>c\<bar>) ` set b) - delta)"
    if "length b = p" for b
    using constraint_whole [of b k delta] that assms(4) ne [OF that] by simp
  have cp: "constraint delta (int p) b = Inr (Max ((\<lambda>c. \<bar>c\<bar>) ` set b) - delta)"
    if "length b = p" for b
    using constraint_whole [of b "int p" delta] that ne [OF that] by simp
  have ob: "\<exists>v. objective Y X b = Inr v" if "length b = p" for b
    using objective_defined [OF assms(5,6,7) that] .
  have same: "minimize (objective Y X) start_val (constraint delta k) opts
                = minimize (objective Y X) start_val (constraint delta (int p)) opts" for opts
    by (rule keeps_dimension_cong [OF assms(8)]) (simp add: ck cp assms(2))
  have runs: "\<exists>r. minimize (objective Y X) start_val (constraint delta (int p)) opts = Inr r
                 \<and> length (res_x r) = p" for opts
    using keeps_dimension_returns [OF assms(8), of start_val "objective Y X"
        "constraint delta (int p)" opts] ob cp assms(2)
    by simp
  obtain r1 where r1:
      "minimize (objective Y X) start_val (constraint delta (int p)) first_options = Inr r1"
    and l1: "length (res_x r1) = p" using runs by blast
  obtain r2 where r2:
      "minimize (objective Y X) start_val (constraint delta (int p)) retry_options = Inr r2"
    and l2: "length (res_x r2) = p" using runs by blast
  have kp: "\<not> k < 1" "\<not> int p < 1" using assms(3,4) by simp_all
  note start = validate_positive_def np_asarray_2d_matrix [OF assms(5)]
  note results = r1 r2 ck [OF l1] ck [OF l2] cp [OF l1] cp [OF l2]
  have eq: "constrained_ols minimize Y X delta k start_val mu
              = constrained_ols minimize Y X delta (int p) start_val mu"
    using assms(1) kp
    by (cases mu; cases "res_success r1")
      (simp_all add: constrained_ols_def start tk tp mx same results)
  have "\<exists>out log. constrained_ols minimize Y X delta (int p) start_val mu = (Inr out, log)"
    using assms(1) kp
    by (cases mu; cases "res_success r1")
      (auto simp: constrained_ols_def start tp mx results)
  then have ex: "\<exists>beta converged log.
      constrained_ols minimize Y X delta (int p) start_val mu = (Inr (beta, converged), log)"
    by force
  from tk mx ck eq ex show ?thesis by simp
qed

theorem constrained_ols_k_beyond_p_witness:
  "keeps_dimension stay_at_start
   \<and> py_take 5 [1/10, 1/5 :: real] = [1/10, 1/5]
   \<and> np_max (map abs (py_take 5 [1/10, 1/5 :: real])) = Inr (1/5)
   \<and> constrained_ols stay_at_start [1] [[1, 0]] 1 5 [1/10, 1/5] None
       = constrained_ols stay_at_start [1] [[1, 0]] 1 2 [1/10, 1/5] None
   \<and> constrained_ols stay_at_start [1] [[1, 0]] 1 5 [1/10, 1/5] None
       = (Inr ([1/10, 1/5], False),
          [Minimize first_options, Minimize retry_options, Warning (4/5)])"
proof -
  have m: "is_matrix [[1, 0]] 1 2" by (simp add: is_matrix_def)
  have kd: "keeps_dimension stay_at_start" by (rule keeps_dimension_stay)
  have l: "length [1/10, 1/5 :: real] = 2" by simp
  have run: "constrained_ols stay_at_start [1] [[1, 0]] 1 5 [1/10, 1/5] None
       = (Inr ([1/10, 1/5], False),
          [Minimize first_options, Minimize retry_options, Warning (4/5)])"
    by (simp add: constrained_ols_def validate_positive_def np_asarray_2d_def py_take_def
        np_max_def stay_at_start_def constraint_def and_then_def)
  show ?thesis
    using constrained_ols_k_beyond_p [OF _ l _ _ m _ _ kd, of 1 5 "[1]" None] kd run
    by (simp add: np_max_def)
qed

end
